theory Spec2Isabelle
  imports Complex_Main "HOL-Library.Word" "HOL-Library.Log_Nat"
begin

section \<open>Employee productivity analysis: calculator and summary aggregator\<close>

text \<open>
  A shallow embedding of \<^verbatim>\<open>calculate_productivity\<close> and
  \<^verbatim>\<open>generate_summary_stats\<close> of \<^verbatim>\<open>app.py\<close>.

  A pandas DataFrame is a list of rows, in index order; a column is the list of one
  field of all rows. The columns have the types pandas gives them: strings, 64-bit
  floats for the hours and the percentage, and 64-bit signed integers, which wrap
  around, for the leave days and the hours derived from them.
\<close>

subsection \<open>64-bit floats\<close>

text \<open>
  A value of a float column is a number, an infinity or the missing value. A number is
  kept as the rational it stands for; the sign of a zero is not kept. Every arithmetic
  operation returns the exact result rounded to the nearest number of the binary64
  format, ties to the even mantissa: 53 bits of mantissa, the least exponent of a
  normal number is -1022, and a result that rounds to \<open>2 ^ 1024\<close> or beyond, whose
  leading bit has an exponent of 1024 or more, is an infinity.
\<close>

datatype float64 = Finite rat | PInf | NInf | NaN

definition rint :: "rat \<Rightarrow> int" where
  "rint x =
     (let f = \<lfloor>x\<rfloor>; d = x - of_int f
      in if d < 1 / 2 then f
         else if 1 / 2 < d then f + 1
         else if even f then f else f + 1)"

text \<open>The exponent of the leading bit of a positive rational.\<close>

definition flog2 :: "rat \<Rightarrow> int" where
  "flog2 x =
     (let (p, q) = quotient_of x; d = bitlen p - bitlen q
      in if 2 powi d \<le> x then d else d - 1)"

definition ulp :: "rat \<Rightarrow> rat" where
  "ulp x = 2 powi (max (flog2 \<bar>x\<bar>) (- 1022) - 52)"

definition nearest :: "rat \<Rightarrow> rat" where
  "nearest x = of_int (rint (x / ulp x)) * ulp x"

definition rnd64 :: "rat \<Rightarrow> float64" where
  "rnd64 x =
     (let y = nearest x
      in if y = 0 then Finite 0
         else if 1024 \<le> flog2 \<bar>y\<bar> then (if 0 < y then PInf else NInf)
         else Finite y)"

text \<open>A Python integer, or a value of an integer column, taken into a float operation.\<close>

definition float_of_int :: "int \<Rightarrow> float64" where
  "float_of_int k = rnd64 (of_int k)"

fun multiply :: "float64 \<Rightarrow> float64 \<Rightarrow> float64" where
  "multiply NaN y = NaN"
| "multiply x NaN = NaN"
| "multiply (Finite a) (Finite b) = rnd64 (a * b)"
| "multiply (Finite a) PInf = (if a = 0 then NaN else if 0 < a then PInf else NInf)"
| "multiply (Finite a) NInf = (if a = 0 then NaN else if 0 < a then NInf else PInf)"
| "multiply PInf (Finite b) = (if b = 0 then NaN else if 0 < b then PInf else NInf)"
| "multiply NInf (Finite b) = (if b = 0 then NaN else if 0 < b then NInf else PInf)"
| "multiply PInf PInf = PInf"
| "multiply PInf NInf = NInf"
| "multiply NInf PInf = NInf"
| "multiply NInf NInf = PInf"

text \<open>
  Division of float columns. NumPy does not raise on a zero divisor. The divisors of
  this program are converted integers, whose zero is the positive one.
\<close>

fun true_divide :: "float64 \<Rightarrow> float64 \<Rightarrow> float64" where
  "true_divide NaN y = NaN"
| "true_divide x NaN = NaN"
| "true_divide (Finite a) (Finite b) =
     (if b = 0 then (if a = 0 then NaN else if 0 < a then PInf else NInf)
      else rnd64 (a / b))"
| "true_divide (Finite a) PInf = Finite 0"
| "true_divide (Finite a) NInf = Finite 0"
| "true_divide PInf (Finite b) = (if 0 \<le> b then PInf else NInf)"
| "true_divide NInf (Finite b) = (if 0 \<le> b then NInf else PInf)"
| "true_divide PInf PInf = NaN"
| "true_divide PInf NInf = NaN"
| "true_divide NInf PInf = NaN"
| "true_divide NInf NInf = NaN"

fun add :: "float64 \<Rightarrow> float64 \<Rightarrow> float64" where
  "add NaN y = NaN"
| "add x NaN = NaN"
| "add (Finite a) (Finite b) = rnd64 (a + b)"
| "add (Finite a) PInf = PInf"
| "add (Finite a) NInf = NInf"
| "add PInf (Finite b) = PInf"
| "add NInf (Finite b) = NInf"
| "add PInf PInf = PInf"
| "add NInf NInf = NInf"
| "add PInf NInf = NaN"
| "add NInf PInf = NaN"

text \<open>\<^verbatim>\<open>numpy.rint\<close>: the nearest integer, ties to the even one.\<close>

fun np_rint :: "float64 \<Rightarrow> float64" where
  "np_rint (Finite a) = Finite (of_int (rint a))"
| "np_rint x = x"

text \<open>
  \<^verbatim>\<open>.round(2)\<close> on a float column or a NumPy float: NumPy multiplies by
  \<^verbatim>\<open>100.0\<close>, rounds to the nearest integer and divides by \<^verbatim>\<open>100.0\<close>.
\<close>

definition round2 :: "float64 \<Rightarrow> float64" where
  "round2 x = true_divide (np_rint (multiply x (float_of_int 100))) (float_of_int 100)"

text \<open>
  A float is at least a given number: the comparison \<^verbatim>\<open>x >= c\<close> of the values
  themselves, false on the missing value.
\<close>

fun at_least :: "rat \<Rightarrow> float64 \<Rightarrow> bool" where
  "at_least c (Finite a) = (c \<le> a)"
| "at_least c PInf = True"
| "at_least c NInf = False"
| "at_least c NaN = False"

subsection \<open>64-bit integers\<close>

type_synonym int64 = "64 word"

text \<open>A Python integer stored in an integer column.\<close>

definition int64_of :: "int \<Rightarrow> int64" where
  "int64_of k = word_of_int k"

subsection \<open>Constants\<close>

definition FULLTIME_STANDARD_HOURS :: int where
  "FULLTIME_STANDARD_HOURS = 200"

definition PARTTIME_STANDARD_HOURS :: int where
  "PARTTIME_STANDARD_HOURS = 100"

definition HOURS_PER_LEAVE_DAY :: int where
  "HOURS_PER_LEAVE_DAY = 8"

definition PRODUCTIVITY_THRESHOLD :: int where
  "PRODUCTIVITY_THRESHOLD = 90"

subsection \<open>Rows\<close>

text \<open>
  The uploaded table has the six required columns. Each column assignment of
  \<^verbatim>\<open>calculate_productivity\<close> that creates a column extends the row type
  by one field, so the type of the frame says which columns exist after each statement.
\<close>

record employee =
  Employee_ID :: string
  Name :: string
  Department :: string
  Employment_Type :: string
  Actual_Hours :: float64
  Leave_Days :: int64

record with_standard = employee +
  Standard_Hours :: int64

record with_deduction = with_standard +
  Leave_Hours_Deduction :: int64

record with_expected = with_deduction +
  Expected_Hours :: int64

record with_percentage = with_expected +
  Productivity_Percentage :: float64

record enriched = with_percentage +
  Productivity_Status :: string

subsection \<open>The statements of the calculator\<close>

text \<open>
  \<^verbatim>\<open>df['Employment_Type'].apply(lambda x: FULLTIME_STANDARD_HOURS if x == 'Full-Time' else PARTTIME_STANDARD_HOURS)\<close>
\<close>

definition standard_hours_of :: "string \<Rightarrow> int" where
  "standard_hours_of x =
     (if x = ''Full-Time'' then FULLTIME_STANDARD_HOURS else PARTTIME_STANDARD_HOURS)"

text \<open>
  \<^verbatim>\<open>lambda x: 'Productive' if x >= PRODUCTIVITY_THRESHOLD else 'Not Productive'\<close>
\<close>

definition status_of :: "float64 \<Rightarrow> string" where
  "status_of x =
     (if at_least (of_int PRODUCTIVITY_THRESHOLD) x then ''Productive'' else ''Not Productive'')"

text \<open>\<^verbatim>\<open>df['Standard_Hours'] = ...\<close>: a new column, row by row in index order.\<close>

definition set_Standard_Hours :: "employee list \<Rightarrow> int64 list \<Rightarrow> with_standard list" where
  "set_Standard_Hours df col =
     map2 (\<lambda>r v. employee.extend r (with_standard.fields v)) df col"

definition set_Leave_Hours_Deduction ::
  "with_standard list \<Rightarrow> int64 list \<Rightarrow> with_deduction list" where
  "set_Leave_Hours_Deduction df col =
     map2 (\<lambda>r v. with_standard.extend r (with_deduction.fields v)) df col"

definition set_Expected_Hours :: "with_deduction list \<Rightarrow> int64 list \<Rightarrow> with_expected list" where
  "set_Expected_Hours df col =
     map2 (\<lambda>r v. with_deduction.extend r (with_expected.fields v)) df col"

text \<open>The second assignment to \<^verbatim>\<open>Expected_Hours\<close> overwrites the column.\<close>

definition put_Expected_Hours :: "with_expected list \<Rightarrow> int64 list \<Rightarrow> with_expected list" where
  "put_Expected_Hours df col = map2 (\<lambda>r v. r\<lparr>Expected_Hours := v\<rparr>) df col"

definition set_Productivity_Percentage ::
  "with_expected list \<Rightarrow> float64 list \<Rightarrow> with_percentage list" where
  "set_Productivity_Percentage df col =
     map2 (\<lambda>r v. with_expected.extend r (with_percentage.fields v)) df col"

definition set_Productivity_Status :: "with_percentage list \<Rightarrow> string list \<Rightarrow> enriched list" where
  "set_Productivity_Status df col =
     map2 (\<lambda>r v. with_percentage.extend r (enriched.fields v)) df col"

definition put_Actual_Hours :: "enriched list \<Rightarrow> float64 list \<Rightarrow> enriched list" where
  "put_Actual_Hours df col = map2 (\<lambda>r v. r\<lparr>Actual_Hours := v\<rparr>) df col"

text \<open>
  \<^verbatim>\<open>.clip(lower=1)\<close> on an integer column: the values are compared as signed
  integers.
\<close>

definition clip_lower :: "int \<Rightarrow> int64 list \<Rightarrow> int64 list" where
  "clip_lower lo col = map (\<lambda>v. if sint v < lo then int64_of lo else v) col"

subsection \<open>The calculator\<close>

definition calculate_productivity :: "employee list \<Rightarrow> enriched list" where
  "calculate_productivity df0 =
     (let df1 = set_Standard_Hours df0
                  (map int64_of (map standard_hours_of (map Employment_Type df0)));
          df2 = set_Leave_Hours_Deduction df1
                  (map (\<lambda>d. d * int64_of HOURS_PER_LEAVE_DAY) (map Leave_Days df1));
          df3 = set_Expected_Hours df2
                  (map2 (-) (map Standard_Hours df2) (map Leave_Hours_Deduction df2));
          df4 = put_Expected_Hours df3 (clip_lower 1 (map Expected_Hours df3));
          df5 = set_Productivity_Percentage df4
                  (map round2
                     (map (\<lambda>q. multiply q (float_of_int 100))
                        (map2 (\<lambda>a e. true_divide a (float_of_int (sint e)))
                           (map Actual_Hours df4) (map Expected_Hours df4))));
          df6 = set_Productivity_Status df5 (map status_of (map Productivity_Percentage df5));
          df7 = put_Actual_Hours df6 (map round2 (map Actual_Hours df6))
      in df7)"

text \<open>What the statements do to one row.\<close>

definition expected_hours_of :: "employee \<Rightarrow> int64" where
  "expected_hours_of r =
     (let v = int64_of (standard_hours_of (Employment_Type r)) -
              Leave_Days r * int64_of HOURS_PER_LEAVE_DAY
      in if sint v < 1 then int64_of 1 else v)"

definition raw_ratio :: "employee \<Rightarrow> float64" where
  "raw_ratio r =
     multiply (true_divide (Actual_Hours r) (float_of_int (sint (expected_hours_of r))))
       (float_of_int 100)"

definition enrich :: "employee \<Rightarrow> enriched" where
  "enrich r =
     \<lparr>Employee_ID = Employee_ID r, Name = Name r, Department = Department r,
      Employment_Type = Employment_Type r, Actual_Hours = round2 (Actual_Hours r),
      Leave_Days = Leave_Days r,
      Standard_Hours = int64_of (standard_hours_of (Employment_Type r)),
      Leave_Hours_Deduction = Leave_Days r * int64_of HOURS_PER_LEAVE_DAY,
      Expected_Hours = expected_hours_of r,
      Productivity_Percentage = round2 (raw_ratio r),
      Productivity_Status = status_of (round2 (raw_ratio r))\<rparr>"

subsection \<open>Means\<close>

text \<open>
  The mean of a float column is the float sum of the values that are not missing,
  divided by their number. NumPy and pandas add the values in an order that depends on
  the length of the column and on the build, so the two means are parameters of the
  aggregator: \<open>series_mean\<close> is the NumPy float that \<^verbatim>\<open>Series.mean()\<close> returns
  for a column with a value that is not missing, \<open>group_mean\<close> the mean of one group in
  \<^verbatim>\<open>groupby(...).agg\<close>.
\<close>

record means =
  series_mean :: "float64 list \<Rightarrow> float64"
  group_mean :: "float64 list \<Rightarrow> float64"

text \<open>
  \<^verbatim>\<open>Series.mean()\<close>. When no value is left after the missing ones are skipped, as
  in an empty column, pandas returns the missing value \<^verbatim>\<open>nan\<close> as a plain Python
  float: \<open>None\<close> here. No division is attempted and nothing is raised.
\<close>

definition mean :: "means \<Rightarrow> float64 list \<Rightarrow> float64 option" where
  "mean lib xs = (if list_all (\<lambda>x. x = NaN) xs then None else Some (series_mean lib xs))"

text \<open>
  \<^verbatim>\<open>.round(2)\<close> on the scalar that \<^verbatim>\<open>mean()\<close> returned. A NumPy float has
  the method; the plain float \<^verbatim>\<open>nan\<close> has none, and the attribute lookup raises
  \<^verbatim>\<open>AttributeError: 'float' object has no attribute 'round'\<close>.
\<close>

datatype error = AttributeError

definition round_scalar :: "float64 option \<Rightarrow> error + float64" where
  "round_scalar m = (case m of None \<Rightarrow> Inl AttributeError | Some x \<Rightarrow> Inr (round2 x))"

definition bind_result :: "error + 'a \<Rightarrow> ('a \<Rightarrow> error + 'b) \<Rightarrow> error + 'b" where
  "bind_result m f = (case m of Inl e \<Rightarrow> Inl e | Inr x \<Rightarrow> f x)"

text \<open>
  Summation from left to right, which is what both means do on a column of one or two
  values: an instance of the parameters to evaluate the aggregator with.
\<close>

definition mean_left :: "float64 list \<Rightarrow> float64" where
  "mean_left xs =
     true_divide (foldl add (Finite 0) (filter (\<lambda>x. x \<noteq> NaN) xs))
       (float_of_int (int (length (filter (\<lambda>x. x \<noteq> NaN) xs))))"

definition means_left :: means where
  "means_left = \<lparr>series_mean = mean_left, group_mean = mean_left\<rparr>"

subsection \<open>The summary\<close>

text \<open>
  The dictionaries the aggregator builds. An empty dictionary \<^verbatim>\<open>{}\<close> under
  \<^verbatim>\<open>fulltime_stats\<close> or \<^verbatim>\<open>parttime_stats\<close> is \<open>None\<close>. The entries of
  \<^verbatim>\<open>department_stats\<close> have the keys \<^verbatim>\<open>Productivity_Percentage\<close> (the mean)
  and \<^verbatim>\<open>Employee_ID\<close> (the count); the fields are named after what they hold.
\<close>

record segment_stats =
  count :: nat
  productive :: nat
  not_productive :: nat
  segment_average_productivity :: float64
  average_hours :: float64

record department_entry =
  mean_Productivity_Percentage :: float64
  count_Employee_ID :: nat

record summary_stats =
  total_employees :: nat
  productive_count :: nat
  not_productive_count :: nat
  average_productivity :: float64
  fulltime_stats :: "segment_stats option"
  parttime_stats :: "segment_stats option"
  department_stats :: "string \<rightharpoonup> department_entry"

text \<open>\<^verbatim>\<open>df[df[col] == v]\<close>: the rows that pass, in their order.\<close>

definition where_Productivity_Status :: "string \<Rightarrow> enriched list \<Rightarrow> enriched list" where
  "where_Productivity_Status v df = filter (\<lambda>r. Productivity_Status r = v) df"

definition where_Employment_Type :: "string \<Rightarrow> enriched list \<Rightarrow> enriched list" where
  "where_Employment_Type v df = filter (\<lambda>r. Employment_Type r = v) df"

text \<open>
  The dictionary assigned under \<^verbatim>\<open>fulltime_stats\<close> and \<^verbatim>\<open>parttime_stats\<close>,
  built from the segment's frame; its values are evaluated in the order of the keys.
\<close>

definition segment_summary :: "means \<Rightarrow> enriched list \<Rightarrow> error + segment_stats" where
  "segment_summary lib seg =
     bind_result (round_scalar (mean lib (map Productivity_Percentage seg))) (\<lambda>ap.
     bind_result (round_scalar (mean lib (map Actual_Hours seg))) (\<lambda>ah.
       Inr \<lparr>count = length seg,
            productive = length (where_Productivity_Status ''Productive'' seg),
            not_productive = length (where_Productivity_Status ''Not Productive'' seg),
            segment_average_productivity = ap,
            average_hours = ah\<rparr>))"

text \<open>
  \<^verbatim>\<open>df.groupby('Department').agg({'Productivity_Percentage': 'mean', 'Employee_ID': 'count'}).round(2).to_dict('index')\<close>:
  one group for each department that occurs, holding the rows of that department.
  A group is never empty. The order of the keys is not modelled.
\<close>

definition groupby_Department :: "enriched list \<Rightarrow> (string \<times> enriched list) list" where
  "groupby_Department df =
     map (\<lambda>d. (d, filter (\<lambda>r. Department r = d) df)) (remdups (map Department df))"

definition department_agg :: "means \<Rightarrow> enriched list \<Rightarrow> department_entry" where
  "department_agg lib g =
     \<lparr>mean_Productivity_Percentage = round2 (group_mean lib (map Productivity_Percentage g)),
      count_Employee_ID = length (map Employee_ID g)\<rparr>"

definition generate_summary_stats :: "means \<Rightarrow> enriched list \<Rightarrow> error + summary_stats" where
  "generate_summary_stats lib df =
     bind_result (round_scalar (mean lib (map Productivity_Percentage df))) (\<lambda>ap.
       let summary =
             \<lparr>total_employees = length df,
              productive_count = length (where_Productivity_Status ''Productive'' df),
              not_productive_count = length (where_Productivity_Status ''Not Productive'' df),
              average_productivity = ap,
              fulltime_stats = None,
              parttime_stats = None,
              department_stats = Map.empty\<rparr>;
           ft_df = where_Employment_Type ''Full-Time'' df
       in bind_result
            (if length ft_df > 0
             then bind_result (segment_summary lib ft_df)
                    (\<lambda>s. Inr (summary\<lparr>fulltime_stats := Some s\<rparr>))
             else Inr summary) (\<lambda>summary.
          let pt_df = where_Employment_Type ''Part-Time'' df
          in bind_result
               (if length pt_df > 0
                then bind_result (segment_summary lib pt_df)
                       (\<lambda>s. Inr (summary\<lparr>parttime_stats := Some s\<rparr>))
                else Inr summary) (\<lambda>summary.
             let dept_stats =
                   map_of (map (\<lambda>(d, g). (d, department_agg lib g)) (groupby_Department df))
             in Inr (summary\<lparr>department_stats := dept_stats\<rparr>))))"

subsection \<open>The calls on a store of objects\<close>

text \<open>
  A frame the caller holds is an object in a store, and the caller passes its address.
  The store is the list of all objects allocated so far; a new object gets the next
  address. \<^verbatim>\<open>df = df.copy()\<close> allocates a copy and rebinds the local name to it,
  and every column assignment that follows writes to the object the local name refers
  to. The calculator is called on a frame of the six input columns and the aggregator
  on an enriched frame; on any other object the model has no result.
\<close>

datatype pyobj =
    Frame "employee list"
  | Frame1 "with_standard list"
  | Frame2 "with_deduction list"
  | Frame3 "with_expected list"
  | Frame4 "with_percentage list"
  | Frame5 "enriched list"

type_synonym store = "pyobj list"

definition lookup :: "store \<Rightarrow> nat \<Rightarrow> pyobj option" where
  "lookup s a = (if a < length s then Some (s ! a) else None)"

definition calculate_productivity_call :: "store \<Rightarrow> nat \<Rightarrow> (nat \<times> store) option" where
  "calculate_productivity_call s arg =
     (case lookup s arg of
        Some (Frame df0) \<Rightarrow>
          (let df = length s;
               s = s @ [Frame df0];
               df1 = set_Standard_Hours df0
                       (map int64_of (map standard_hours_of (map Employment_Type df0)));
               s = s[df := Frame1 df1];
               df2 = set_Leave_Hours_Deduction df1
                       (map (\<lambda>d. d * int64_of HOURS_PER_LEAVE_DAY) (map Leave_Days df1));
               s = s[df := Frame2 df2];
               df3 = set_Expected_Hours df2
                       (map2 (-) (map Standard_Hours df2) (map Leave_Hours_Deduction df2));
               s = s[df := Frame3 df3];
               df4 = put_Expected_Hours df3 (clip_lower 1 (map Expected_Hours df3));
               s = s[df := Frame3 df4];
               df5 = set_Productivity_Percentage df4
                       (map round2
                          (map (\<lambda>q. multiply q (float_of_int 100))
                             (map2 (\<lambda>a e. true_divide a (float_of_int (sint e)))
                                (map Actual_Hours df4) (map Expected_Hours df4))));
               s = s[df := Frame4 df5];
               df6 = set_Productivity_Status df5
                       (map status_of (map Productivity_Percentage df5));
               s = s[df := Frame5 df6];
               df7 = put_Actual_Hours df6 (map round2 (map Actual_Hours df6));
               s = s[df := Frame5 df7]
           in Some (df, s))
      | _ \<Rightarrow> None)"

text \<open>
  The aggregator only reads its argument: it has no assignment to the frame or to a
  column of it, and the frames selected by a condition are new objects that nothing
  refers to after the call. It returns the summary, or raises, and leaves the store.
\<close>

definition generate_summary_stats_call ::
  "means \<Rightarrow> store \<Rightarrow> nat \<Rightarrow> ((error + summary_stats) \<times> store) option" where
  "generate_summary_stats_call lib s arg =
     (case lookup s arg of
        Some (Frame5 df) \<Rightarrow> Some (generate_summary_stats lib df, s)
      | _ \<Rightarrow> None)"

subsection \<open>Sample rows\<close>

text \<open>
  Rows in the format of \<^verbatim>\<open>generate_sample_data\<close>, used to evaluate the
  functions at concrete inputs. Hours that are not binary fractions are the binary64
  numbers nearest to the decimal, as reading a file gives them.
\<close>

definition sample_fulltime :: employee where
  "sample_fulltime =
     \<lparr>Employee_ID = ''EMP0001'', Name = ''Employee 1'', Department = ''Engineering'',
      Employment_Type = ''Full-Time'', Actual_Hours = Finite 180, Leave_Days = 0\<rparr>"

definition sample_parttime :: employee where
  "sample_parttime =
     \<lparr>Employee_ID = ''EMP0002'', Name = ''Employee 2'', Department = ''Sales'',
      Employment_Type = ''Part-Time'', Actual_Hours = Finite 50, Leave_Days = 2\<rparr>"

definition sample_contractor :: employee where
  "sample_contractor =
     \<lparr>Employee_ID = ''EMP0003'', Name = ''Employee 3'', Department = ''IT'',
      Employment_Type = ''Contractor'', Actual_Hours = Finite 95, Leave_Days = 0\<rparr>"

definition sample_long_leave :: employee where
  "sample_long_leave =
     \<lparr>Employee_ID = ''EMP0004'', Name = ''Employee 4'', Department = ''HR'',
      Employment_Type = ''Part-Time'', Actual_Hours = Finite 4, Leave_Days = 13\<rparr>"

definition sample_near_threshold :: employee where
  "sample_near_threshold =
     \<lparr>Employee_ID = ''EMP0005'', Name = ''Employee 5'', Department = ''Finance'',
      Employment_Type = ''Full-Time'', Actual_Hours = rnd64 (107994 / 1000),
      Leave_Days = 10\<rparr>"

definition sample_not_productive :: employee where
  "sample_not_productive =
     \<lparr>Employee_ID = ''EMP0006'', Name = ''Employee 6'', Department = ''Finance'',
      Employment_Type = ''Full-Time'', Actual_Hours = rnd64 (17998 / 100), Leave_Days = 0\<rparr>"

definition sample_second_fulltime :: employee where
  "sample_second_fulltime =
     \<lparr>Employee_ID = ''EMP0007'', Name = ''Employee 7'', Department = ''Operations'',
      Employment_Type = ''Full-Time'', Actual_Hours = rnd64 (17058 / 100), Leave_Days = 0\<rparr>"

section \<open>Properties\<close>

subsection \<open>Rounding to the nearest integer and to the nearest float\<close>

lemma rint_bounds: "x - 1 / 2 \<le> of_int (rint x) \<and> of_int (rint x) \<le> x + 1 / 2"
proof -
  have "of_int \<lfloor>x\<rfloor> \<le> x" "x < of_int \<lfloor>x\<rfloor> + 1" by linarith+
  then show ?thesis unfolding rint_def Let_def by (simp split: if_splits) linarith
qed

lemma pow2_less_imp: "(2::rat) powi m < 2 powi n \<Longrightarrow> m < n"
proof (rule ccontr)
  assume a: "(2::rat) powi m < 2 powi n" and "\<not> m < n"
  then have "n \<le> m" by simp
  then have "(2::rat) powi n \<le> 2 powi m" by (intro power_int_increasing) auto
  with a show False by simp
qed

lemma rint_of_int [simp]: "rint (of_int k) = k"
  by (simp add: rint_def)

lemma rint_mono: "x \<le> y \<Longrightarrow> rint x \<le> rint y"
proof (rule ccontr)
  assume xy: "x \<le> y" and "\<not> rint x \<le> rint y"
  then have lt: "rint y + 1 \<le> rint x" by simp
  then have "(of_int (rint y) :: rat) + 1 \<le> of_int (rint x)"
    by (metis of_int_1 of_int_add of_int_le_iff)
  with rint_bounds [of x] rint_bounds [of y] xy have "x = y" by linarith
  with lt show False by simp
qed

lemma rint_minus: "rint (- x) = - rint x"
proof (cases "x = of_int \<lfloor>x\<rfloor>")
  case True
  then obtain k where "x = of_int k" ..
  then show ?thesis by (simp flip: of_int_minus)
next
  case False
  have fl: "of_int \<lfloor>x\<rfloor> < x" "x < of_int \<lfloor>x\<rfloor> + 1" using False by linarith+
  then have "\<lfloor>- x\<rfloor> = - \<lfloor>x\<rfloor> - 1" by (simp add: floor_unique)
  then show ?thesis using fl by (auto simp: rint_def Let_def)
qed

lemma flog2_bounds:
  assumes "0 < x"
  shows "2 powi flog2 x \<le> x \<and> x < 2 powi (flog2 x + 1)"
proof -
  obtain p q where pq: "quotient_of x = (p, q)" by (cases "quotient_of x")
  then have q: "0 < q" and x: "x = of_int p / of_int q"
    by (auto simp: quotient_of_denom_pos quotient_of_div)
  with assms have p: "0 < p" by (simp add: zero_less_divide_iff)
  define bp bq where "bp = bitlen p" and "bq = bitlen q"
  have bp1: "1 \<le> bp" and bq1: "1 \<le> bq"
    using p q by (auto simp: bp_def bq_def bitlen_alt_def)
  from bitlen_bounds [OF p] have "2 ^ nat (bp - 1) \<le> p" "p < 2 ^ nat bp"
    by (auto simp: bp_def)
  then have "(of_int (2 ^ nat (bp - 1)) :: rat) \<le> of_int p"
    "(of_int p :: rat) < of_int (2 ^ nat bp)"
    by (simp_all only: of_int_le_iff of_int_less_iff)
  then have P: "(2::rat) powi (bp - 1) \<le> of_int p" "of_int p < (2::rat) powi bp"
    using bp1 by (simp_all add: power_int_nonneg_exp)
  from bitlen_bounds [OF q] have "2 ^ nat (bq - 1) \<le> q" "q < 2 ^ nat bq"
    by (auto simp: bq_def)
  then have "(of_int (2 ^ nat (bq - 1)) :: rat) \<le> of_int q"
    "(of_int q :: rat) < of_int (2 ^ nat bq)"
    by (simp_all only: of_int_le_iff of_int_less_iff)
  then have Q: "(2::rat) powi (bq - 1) \<le> of_int q" "of_int q < (2::rat) powi bq"
    using bq1 by (simp_all add: power_int_nonneg_exp)
  have q': "(0::rat) < of_int q" using q by simp
  have up: "x < 2 powi (bp - bq + 1)"
  proof -
    have "of_int p < (2::rat) powi (bp - bq + 1) * 2 powi (bq - 1)"
      using P(2) by (simp flip: power_int_add)
    also have "\<dots> \<le> 2 powi (bp - bq + 1) * of_int q"
      using Q(1) by (simp add: mult_left_mono)
    finally show ?thesis using q' by (simp add: x pos_divide_less_eq)
  qed
  have lo: "2 powi (bp - bq - 1) \<le> x"
  proof -
    have "(2::rat) powi (bp - bq - 1) * of_int q \<le> 2 powi (bp - bq - 1) * 2 powi bq"
      using Q(2) by (simp add: mult_left_mono)
    also have "\<dots> = 2 powi (bp - 1)" by (simp flip: power_int_add)
    also have "\<dots> \<le> of_int p" by (rule P(1))
    finally show ?thesis using q' by (simp add: x pos_le_divide_eq)
  qed
  show ?thesis
    using up lo by (auto simp: flog2_def pq bp_def bq_def Let_def)
qed

lemma flog2_unique:
  assumes "2 powi e \<le> x" "x < 2 powi (e + 1)"
  shows "flog2 x = e"
proof -
  have "(0::rat) < 2 powi e" by simp
  with assms(1) have x: "0 < x" by linarith
  from flog2_bounds [OF x] have b: "2 powi flog2 x \<le> x" "x < 2 powi (flog2 x + 1)" by auto
  have "(2::rat) powi e < 2 powi (flog2 x + 1)" using assms(1) b(2) by simp
  then have "e < flog2 x + 1" by (rule pow2_less_imp)
  moreover have "(2::rat) powi flog2 x < 2 powi (e + 1)" using assms(2) b(1) by simp
  then have "flog2 x < e + 1" by (rule pow2_less_imp)
  ultimately show ?thesis by simp
qed

lemma flog2_mono: "0 < x \<Longrightarrow> x \<le> y \<Longrightarrow> flog2 x \<le> flog2 y"
proof -
  assume x: "0 < x" and xy: "x \<le> y"
  then have y: "0 < y" by simp
  from flog2_bounds [OF x] flog2_bounds [OF y] xy
  have "(2::rat) powi flog2 x < 2 powi (flog2 y + 1)" by simp
  then have "flog2 x < flog2 y + 1" by (rule pow2_less_imp)
  then show ?thesis by simp
qed

lemma ulp_pos [simp]: "0 < ulp x"
  by (simp add: ulp_def)

lemma ulp_minus [simp]: "ulp (- x) = ulp x"
  by (simp add: ulp_def)

lemma nearest_minus: "nearest (- x) = - nearest x"
  by (simp add: nearest_def rint_minus)

lemma nearest_nonneg: "0 \<le> x \<Longrightarrow> 0 \<le> nearest x"
proof -
  assume "0 \<le> x"
  then have "0 \<le> x / ulp x" by (intro divide_nonneg_pos) simp_all
  then have "rint 0 \<le> rint (x / ulp x)" by (rule rint_mono)
  then have "0 \<le> rint (x / ulp x)" by (simp add: rint_def)
  then show ?thesis
    unfolding nearest_def by (intro mult_nonneg_nonneg) (simp_all add: less_imp_le)
qed

lemma pow2_add: "(2::rat) powi a * 2 powi b = 2 powi (a + b)"
  by (simp add: power_int_add)

lemma pow2_diff: "(2::rat) powi a / 2 powi b = 2 powi (a - b)"
  by (simp add: power_int_diff)

lemma nearest_mono_pos:
  assumes x: "0 < x" and xy: "x \<le> y"
  shows "nearest x \<le> nearest y"
proof -
  from x xy have y: "0 < y" by simp
  define ex where "ex = max (flog2 x) (- 1022)"
  define ey where "ey = max (flog2 y) (- 1022)"
  have ux: "ulp x = 2 powi (ex - 52)" and uy: "ulp y = 2 powi (ey - 52)"
    using x y by (simp_all add: ulp_def ex_def ey_def)
  have le: "ex \<le> ey"
    using flog2_mono [OF x xy] by (simp add: ex_def ey_def)
  show ?thesis
  proof (cases "ex = ey")
    case True
    then have u: "ulp x = ulp y" by (simp add: ux uy)
    have "x / ulp y \<le> y / ulp y" using xy by (intro divide_right_mono) (simp_all add: less_imp_le)
    then have "rint (x / ulp y) \<le> rint (y / ulp y)" by (rule rint_mono)
    then have "(of_int (rint (x / ulp y)) :: rat) \<le> of_int (rint (y / ulp y))" by simp
    then show ?thesis by (simp add: nearest_def u mult_right_mono)
  next
    case False
    with le have lt: "ex < ey" by simp
    then have eyf: "ey = flog2 y" by (auto simp: ex_def ey_def)
    have "x < 2 powi (flog2 x + 1)" using flog2_bounds [OF x] by simp
    also have "\<dots> \<le> 2 powi (ex + 1)"
      by (intro power_int_increasing) (auto simp: ex_def)
    finally have "x / ulp x \<le> 2 powi (ex + 1) / 2 powi (ex - 52)"
      by (simp add: ux divide_right_mono)
    also have "\<dots> = 2 powi (ex + 1 - (ex - 52))" by (rule pow2_diff)
    also have "\<dots> = 2 powi 53" by simp
    also have "\<dots> = of_int (2 ^ 53)" by simp
    finally have "rint (x / ulp x) \<le> rint (of_int (2 ^ 53))" by (rule rint_mono)
    then have "(of_int (rint (x / ulp x)) :: rat) \<le> of_int (2 ^ 53)"
      by (simp only: rint_of_int of_int_le_iff)
    then have "nearest x \<le> of_int (2 ^ 53) * 2 powi (ex - 52)"
      by (simp only: nearest_def ux mult_right_mono zero_le_power_int zero_le_numeral)
    also have "\<dots> = 2 powi 53 * 2 powi (ex - 52)" by simp
    also have "\<dots> = 2 powi (53 + (ex - 52))" by (rule pow2_add)
    also have "\<dots> = 2 powi (ex + 1)" by (simp add: algebra_simps)
    also have "\<dots> \<le> 2 powi ey" using lt by (intro power_int_increasing) auto
    finally have a: "nearest x \<le> 2 powi ey" .
    have "(2::rat) powi ey \<le> y" using flog2_bounds [OF y] by (simp add: eyf)
    then have "2 powi ey / 2 powi (ey - 52) \<le> y / ulp y"
      by (simp add: uy divide_right_mono)
    moreover have "(2::rat) powi ey / 2 powi (ey - 52) = 2 powi 52"
      by (simp only: pow2_diff) simp
    moreover have "(2::rat) powi 52 = of_int (2 ^ 52)" by simp
    ultimately have "of_int (2 ^ 52) \<le> y / ulp y" by simp
    then have "rint (of_int (2 ^ 52)) \<le> rint (y / ulp y)" by (rule rint_mono)
    then have "(of_int (2 ^ 52) :: rat) \<le> of_int (rint (y / ulp y))"
      by (simp only: rint_of_int of_int_le_iff)
    then have "of_int (2 ^ 52) * 2 powi (ey - 52) \<le> nearest y"
      by (simp only: nearest_def uy mult_right_mono zero_le_power_int zero_le_numeral)
    moreover have "(of_int (2 ^ 52) :: rat) * 2 powi (ey - 52) = 2 powi 52 * 2 powi (ey - 52)" by simp
    moreover have "(2::rat) powi 52 * 2 powi (ey - 52) = 2 powi ey"
      by (simp only: pow2_add) simp
    ultimately have "2 powi ey \<le> nearest y" by simp
    with a show ?thesis by simp
  qed
qed

lemma nearest_mono: "x \<le> y \<Longrightarrow> nearest x \<le> nearest y"
proof -
  assume xy: "x \<le> y"
  consider "0 < x" | "x \<le> 0" "0 \<le> y" | "y < 0" by linarith
  then show ?thesis
  proof cases
    case 1
    then show ?thesis using xy by (rule nearest_mono_pos)
  next
    case 2
    have "nearest x = - nearest (- x)" by (simp add: nearest_minus)
    moreover have "0 \<le> nearest (- x)" using 2 by (intro nearest_nonneg) simp
    moreover have "0 \<le> nearest y" using 2 by (intro nearest_nonneg)
    ultimately show ?thesis by simp
  next
    case 3
    then have "0 < - y" "- y \<le> - x" using xy by simp_all
    then have "nearest (- y) \<le> nearest (- x)" by (rule nearest_mono_pos)
    then show ?thesis by (simp add: nearest_minus)
  qed
qed

lemma at_least_rnd64:
  assumes "c \<le> x" "nearest c = c" "0 < c"
  shows "at_least c (rnd64 x)"
proof -
  have "c \<le> nearest x" using nearest_mono [OF assms(1)] assms(2) by simp
  with assms(3) show ?thesis by (simp add: rnd64_def Let_def)
qed

lemma rnd64_not_NaN [simp]: "rnd64 x \<noteq> NaN"
  by (simp add: rnd64_def Let_def)

subsection \<open>The calculator, row by row\<close>

text \<open>
  The column statements of the calculator, taken together, apply \<open>enrich\<close> to each
  row: every column is computed from columns of the same frame, position by position.
\<close>

lemma calculate_productivity_map: "calculate_productivity df = map enrich df"
  unfolding calculate_productivity_def Let_def set_Standard_Hours_def
    set_Leave_Hours_Deduction_def set_Expected_Hours_def put_Expected_Hours_def
    set_Productivity_Percentage_def set_Productivity_Status_def put_Actual_Hours_def
    clip_lower_def
  by (induction df)
     (simp_all add: enrich_def raw_ratio_def expected_hours_of_def Let_def
        employee.defs with_standard.defs with_deduction.defs with_expected.defs
        with_percentage.defs enriched.defs)

subsection \<open>Evaluation\<close>

text \<open>
  Values of the float operations and the enriched sample rows. The numbers are
  binary64 values written as fractions: 6332483288547983 / 70368744177664 is the one
  nearest to 89.99, 3083910213586125 / 35184372088832 the one nearest to 87.65,
  6167468583451361 / 35184372088832 the one nearest to 175.29 and
  7599120683745935 / 70368744177664 the one nearest to 107.99.
\<close>

lemma float_of_int_100: "float_of_int 100 = Finite 100"
  by code_simp

lemma nearest_fixed: "nearest (17999 / 2) = 17999 / 2" "nearest 90 = 90" "nearest 1 = 1"
  "nearest (2 ^ 63) = 2 ^ 63"
  by code_simp+

lemma rint_tie: "rint (17999 / 2) = 9000"
  by code_simp

lemma flog2_63: "flog2 (2 ^ 63) = 63"
  by code_simp

lemma enrich_sample_fulltime:
  "enrich sample_fulltime =
     \<lparr>Employee_ID = ''EMP0001'', Name = ''Employee 1'', Department = ''Engineering'',
      Employment_Type = ''Full-Time'', Actual_Hours = Finite 180, Leave_Days = 0,
      Standard_Hours = 200, Leave_Hours_Deduction = 0, Expected_Hours = 200,
      Productivity_Percentage = Finite 90, Productivity_Status = ''Productive''\<rparr>"
  by code_simp

lemma enrich_sample_parttime:
  "enrich sample_parttime =
     \<lparr>Employee_ID = ''EMP0002'', Name = ''Employee 2'', Department = ''Sales'',
      Employment_Type = ''Part-Time'', Actual_Hours = Finite 50, Leave_Days = 2,
      Standard_Hours = 100, Leave_Hours_Deduction = 16, Expected_Hours = 84,
      Productivity_Percentage = Finite (8376695306909123 / 140737488355328),
      Productivity_Status = ''Not Productive''\<rparr>"
  by code_simp

lemma enrich_sample_contractor:
  "enrich sample_contractor =
     \<lparr>Employee_ID = ''EMP0003'', Name = ''Employee 3'', Department = ''IT'',
      Employment_Type = ''Contractor'', Actual_Hours = Finite 95, Leave_Days = 0,
      Standard_Hours = 100, Leave_Hours_Deduction = 0, Expected_Hours = 100,
      Productivity_Percentage = Finite 95, Productivity_Status = ''Productive''\<rparr>"
  by code_simp

lemma enrich_sample_long_leave:
  "enrich sample_long_leave =
     \<lparr>Employee_ID = ''EMP0004'', Name = ''Employee 4'', Department = ''HR'',
      Employment_Type = ''Part-Time'', Actual_Hours = Finite 4, Leave_Days = 13,
      Standard_Hours = 100, Leave_Hours_Deduction = 104, Expected_Hours = 1,
      Productivity_Percentage = Finite 400, Productivity_Status = ''Productive''\<rparr>"
  by code_simp

lemma enrich_sample_near_threshold:
  "enrich sample_near_threshold =
     \<lparr>Employee_ID = ''EMP0005'', Name = ''Employee 5'', Department = ''Finance'',
      Employment_Type = ''Full-Time'',
      Actual_Hours = Finite (7599120683745935 / 70368744177664), Leave_Days = 10,
      Standard_Hours = 200, Leave_Hours_Deduction = 80, Expected_Hours = 120,
      Productivity_Percentage = Finite 90, Productivity_Status = ''Productive''\<rparr>"
  by code_simp

lemma enrich_sample_not_productive:
  "enrich sample_not_productive =
     \<lparr>Employee_ID = ''EMP0006'', Name = ''Employee 6'', Department = ''Finance'',
      Employment_Type = ''Full-Time'',
      Actual_Hours = Finite (6332483288547983 / 35184372088832), Leave_Days = 0,
      Standard_Hours = 200, Leave_Hours_Deduction = 0, Expected_Hours = 200,
      Productivity_Percentage = Finite (6332483288547983 / 70368744177664),
      Productivity_Status = ''Not Productive''\<rparr>"
  by code_simp

lemma enrich_sample_second_fulltime:
  "enrich sample_second_fulltime =
     \<lparr>Employee_ID = ''EMP0007'', Name = ''Employee 7'', Department = ''Operations'',
      Employment_Type = ''Full-Time'',
      Actual_Hours = Finite (6001750190912963 / 35184372088832), Leave_Days = 0,
      Standard_Hours = 200, Leave_Hours_Deduction = 0, Expected_Hours = 200,
      Productivity_Percentage = Finite (6001750190912963 / 70368744177664),
      Productivity_Status = ''Not Productive''\<rparr>"
  by code_simp

lemma sample_hours:
  "Actual_Hours sample_near_threshold = Finite (3799701079361323 / 35184372088832)"
  "rnd64 (8999 / 100) = Finite (6332483288547983 / 70368744177664)"
  "rnd64 (8765 / 100) = Finite (3083910213586125 / 35184372088832)"
  "rnd64 (17529 / 100) = Finite (6167468583451361 / 35184372088832)"
  by code_simp+

lemma sample_near_threshold_ratio:
  "multiply (true_divide (Finite (3799701079361323 / 35184372088832)) (float_of_int 120))
     (float_of_int 100) = Finite (791604391533609 / 8796093022208)"
  "round2 (multiply (true_divide (Finite (7599120683745935 / 70368744177664)) (float_of_int 120))
     (float_of_int 100)) = Finite (6332483288547983 / 70368744177664)"
  by code_simp+

lemma sample_means:
  "round2 (mean_left [Finite 90, Finite (6001750190912963 / 70368744177664)]) =
     Finite (3083910213586125 / 35184372088832)"
  "round2 (mean_left [Finite 180, Finite (6001750190912963 / 35184372088832)]) =
     Finite (6167468583451361 / 35184372088832)"
  by code_simp+

lemma calculate_productivity_status:
  "\<forall>r \<in> set (calculate_productivity df).
     Productivity_Status r \<in> {''Productive'', ''Not Productive''}"
  by (auto simp: calculate_productivity_map enrich_def status_of_def)

subsection \<open>Integer columns\<close>

lemma sint_int64_of: "- (2 ^ 63) \<le> k \<Longrightarrow> k < 2 ^ 63 \<Longrightarrow> sint (int64_of k) = k"
  by (simp add: int64_of_def sint_sbintrunc' signed_take_bit_int_eq_self)

lemma sint_difference:
  fixes s d :: int64
  assumes "0 \<le> sint s" "sint s \<le> 200" "0 \<le> sint d" "sint d < 2 ^ 60"
  shows "sint (s - d * 8) = sint s - sint d * 8"
proof -
  have "s - d * 8 = word_of_int (sint s - sint d * 8)"
    by simp
  then have "sint (s - d * 8) = signed_take_bit 63 (sint s - sint d * 8)"
    by (simp only: sint_sbintrunc') simp
  also have "\<dots> = sint s - sint d * 8"
    using assms by (intro signed_take_bit_int_eq_self) simp_all
  finally show ?thesis .
qed

lemma expected_hours_of_ge_1: "1 \<le> sint (expected_hours_of r)"
  by (simp add: expected_hours_of_def Let_def int64_of_def)

subsection \<open>Floats that are not missing\<close>

lemma float_of_int_positive:
  assumes "1 \<le> k" "k < 2 ^ 63"
  shows "\<exists>b. float_of_int k = Finite b \<and> 1 \<le> b"
proof -
  let ?y = "nearest (of_int k)"
  have lo: "1 \<le> ?y"
    using nearest_mono [of 1 "of_int k"] assms(1) by (simp add: nearest_fixed)
  have "(of_int k :: rat) \<le> 2 ^ 63" using assms(2)
    by (metis less_imp_le of_int_le_iff of_int_numeral of_int_power)
  then have hi: "?y \<le> 2 ^ 63"
    using nearest_mono [of "of_int k" "2 ^ 63"] by (simp only: nearest_fixed)
  have "flog2 ?y \<le> flog2 (2 ^ 63)" using lo hi by (intro flog2_mono) linarith+
  then have "flog2 ?y \<le> 63" by (simp only: flog2_63)
  moreover have "\<bar>?y\<bar> = ?y" using lo by linarith
  ultimately have "flog2 \<bar>?y\<bar> < 1024" by simp
  with lo show ?thesis by (auto simp: float_of_int_def rnd64_def Let_def)
qed

lemma true_divide_not_NaN: "x \<noteq> NaN \<Longrightarrow> 0 < b \<Longrightarrow> true_divide x (Finite b) \<noteq> NaN"
  by (cases x) simp_all

lemma multiply_not_NaN: "x \<noteq> NaN \<Longrightarrow> 0 < b \<Longrightarrow> multiply x (Finite b) \<noteq> NaN"
  by (cases x) simp_all

lemma np_rint_not_NaN: "x \<noteq> NaN \<Longrightarrow> np_rint x \<noteq> NaN"
  by (cases x) simp_all

lemma round2_not_NaN: "x \<noteq> NaN \<Longrightarrow> round2 x \<noteq> NaN"
  by (simp add: round2_def float_of_int_100 true_divide_not_NaN multiply_not_NaN
        np_rint_not_NaN)

lemma raw_ratio_not_NaN: "Actual_Hours r \<noteq> NaN \<Longrightarrow> raw_ratio r \<noteq> NaN"
proof -
  assume a: "Actual_Hours r \<noteq> NaN"
  have "sint (expected_hours_of r) < 2 ^ 63"
    using sint_lt [of "expected_hours_of r"] by simp
  with expected_hours_of_ge_1 [of r]
  obtain b where b: "float_of_int (sint (expected_hours_of r)) = Finite b" "1 \<le> b"
    using float_of_int_positive by blast
  then show ?thesis
    using a by (simp add: raw_ratio_def float_of_int_100 true_divide_not_NaN multiply_not_NaN)
qed

lemma enrich_not_NaN:
  "Actual_Hours r \<noteq> NaN \<Longrightarrow>
   Productivity_Percentage (enrich r) \<noteq> NaN \<and> Actual_Hours (enrich r) \<noteq> NaN"
  by (simp add: enrich_def round2_not_NaN raw_ratio_not_NaN)

subsection \<open>Rounding at the threshold\<close>

lemma round2_boundary:
  assumes "at_least (89995 / 1000) r"
  shows "at_least 90 (round2 r)"
proof (cases r)
  case (Finite a)
  with assms have a: "17999 / 2 \<le> a * 100" by simp
  have t: "at_least (17999 / 2) (rnd64 (a * 100))"
    using a by (intro at_least_rnd64) (simp_all add: nearest_fixed)
  show ?thesis
  proof (cases "rnd64 (a * 100)")
    case (Finite b)
    with t have "17999 / 2 \<le> b" by simp
    then have "rint (17999 / 2) \<le> rint b" by (rule rint_mono)
    then have "9000 \<le> rint b" by (simp add: rint_tie)
    then have "(9000::rat) \<le> of_int (rint b)" by linarith
    then have "at_least 90 (rnd64 (of_int (rint b) / 100))"
      by (intro at_least_rnd64) (simp_all add: nearest_fixed)
    then show ?thesis
      using Finite \<open>r = Finite a\<close> by (simp add: round2_def float_of_int_100)
  next
    case PInf
    then show ?thesis using \<open>r = Finite a\<close> by (simp add: round2_def float_of_int_100)
  next
    case NInf
    with t show ?thesis by simp
  next
    case NaN
    with t show ?thesis by simp
  qed
next
  case PInf
  then show ?thesis by (simp add: round2_def float_of_int_100)
next
  case NInf
  with assms show ?thesis by simp
next
  case NaN
  with assms show ?thesis by simp
qed

subsection \<open>The summary in closed form\<close>

lemma mean_empty: "mean lib [] = None"
  by (simp add: mean_def)

lemma generate_summary_stats_empty: "generate_summary_stats lib [] = Inl AttributeError"
  by (simp add: generate_summary_stats_def mean_def round_scalar_def bind_result_def)

lemma generate_summary_stats_Inr: "generate_summary_stats lib df = Inr s \<Longrightarrow> df \<noteq> []"
  by (auto simp: generate_summary_stats_empty)

lemma department_stats_lookup:
  "map_of (map (\<lambda>(d, g). (d, department_agg lib g)) (groupby_Department df)) d =
     (if d \<in> set (map Department df)
      then Some (department_agg lib (filter (\<lambda>r. Department r = d) df)) else None)"
proof -
  have "map (\<lambda>(d, g). (d, department_agg lib g)) (groupby_Department df) =
        map (\<lambda>d. (d, department_agg lib (filter (\<lambda>r. Department r = d) df)))
          (remdups (map Department df))"
    by (simp add: groupby_Department_def)
  then show ?thesis
    by (simp add: map_of_map_restrict restrict_map_def)
qed

lemma segment_summary_Inr:
  "segment_summary lib seg = Inr e \<Longrightarrow>
   e = \<lparr>count = length seg,
        productive = length (where_Productivity_Status ''Productive'' seg),
        not_productive = length (where_Productivity_Status ''Not Productive'' seg),
        segment_average_productivity = round2 (series_mean lib (map Productivity_Percentage seg)),
        average_hours = round2 (series_mean lib (map Actual_Hours seg))\<rparr>"
  by (auto simp: segment_summary_def mean_def round_scalar_def bind_result_def
        split: if_splits)

lemma segment_summary_returns:
  "seg \<noteq> [] \<Longrightarrow> \<forall>r \<in> set seg. Productivity_Percentage r \<noteq> NaN \<and> Actual_Hours r \<noteq> NaN \<Longrightarrow>
   \<exists>e. segment_summary lib seg = Inr e"
  by (cases seg) (auto simp: segment_summary_def mean_def round_scalar_def bind_result_def)

lemma generate_summary_stats_closed:
  assumes "generate_summary_stats lib df = Inr s"
  shows "s =
     \<lparr>total_employees = length df,
      productive_count = length (where_Productivity_Status ''Productive'' df),
      not_productive_count = length (where_Productivity_Status ''Not Productive'' df),
      average_productivity = round2 (series_mean lib (map Productivity_Percentage df)),
      fulltime_stats =
        (if where_Employment_Type ''Full-Time'' df = [] then None
         else Some
           \<lparr>count = length (where_Employment_Type ''Full-Time'' df),
            productive = length (where_Productivity_Status ''Productive''
              (where_Employment_Type ''Full-Time'' df)),
            not_productive = length (where_Productivity_Status ''Not Productive''
              (where_Employment_Type ''Full-Time'' df)),
            segment_average_productivity = round2 (series_mean lib
              (map Productivity_Percentage (where_Employment_Type ''Full-Time'' df))),
            average_hours = round2 (series_mean lib
              (map Actual_Hours (where_Employment_Type ''Full-Time'' df)))\<rparr>),
      parttime_stats =
        (if where_Employment_Type ''Part-Time'' df = [] then None
         else Some
           \<lparr>count = length (where_Employment_Type ''Part-Time'' df),
            productive = length (where_Productivity_Status ''Productive''
              (where_Employment_Type ''Part-Time'' df)),
            not_productive = length (where_Productivity_Status ''Not Productive''
              (where_Employment_Type ''Part-Time'' df)),
            segment_average_productivity = round2 (series_mean lib
              (map Productivity_Percentage (where_Employment_Type ''Part-Time'' df))),
            average_hours = round2 (series_mean lib
              (map Actual_Hours (where_Employment_Type ''Part-Time'' df)))\<rparr>),
      department_stats =
        (\<lambda>d. if d \<in> set (map Department df)
             then Some (department_agg lib (filter (\<lambda>r. Department r = d) df))
             else None)\<rparr>"
proof -
  let ?ft = "where_Employment_Type ''Full-Time'' df"
  let ?pt = "where_Employment_Type ''Part-Time'' df"
  from assms obtain ap where
    ap: "round_scalar (mean lib (map Productivity_Percentage df)) = Inr ap"
    by (auto simp: generate_summary_stats_def bind_result_def split: sum.splits)
  then have apv: "ap = round2 (series_mean lib (map Productivity_Percentage df))"
    by (auto simp: round_scalar_def mean_def split: if_splits)
  have ftc: "?ft \<noteq> [] \<Longrightarrow> \<exists>e. segment_summary lib ?ft = Inr e"
    using assms ap
    by (cases "segment_summary lib ?ft")
       (auto simp: generate_summary_stats_def bind_result_def Let_def)
  have ptc: "?pt \<noteq> [] \<Longrightarrow> \<exists>e. segment_summary lib ?pt = Inr e"
    using assms ap
    by (cases "segment_summary lib ?pt")
       (auto simp: generate_summary_stats_def bind_result_def Let_def split: sum.splits if_splits)
  show ?thesis
  proof (cases "?ft = []")
    case ft: True
    show ?thesis
    proof (cases "?pt = []")
      case True
      with ft assms ap apv show ?thesis
        by (simp add: generate_summary_stats_def bind_result_def Let_def
              department_stats_lookup [abs_def])
    next
      case False
      with ptc obtain e where e: "segment_summary lib ?pt = Inr e" by blast
      from segment_summary_Inr [OF e] e False ft assms ap apv show ?thesis
        by (simp add: generate_summary_stats_def bind_result_def Let_def
              department_stats_lookup [abs_def])
    qed
  next
    case ft: False
    with ftc obtain f where f: "segment_summary lib ?ft = Inr f" by blast
    show ?thesis
    proof (cases "?pt = []")
      case True
      from segment_summary_Inr [OF f] f True ft assms ap apv show ?thesis
        by (simp add: generate_summary_stats_def bind_result_def Let_def
              department_stats_lookup [abs_def])
    next
      case False
      with ptc obtain e where e: "segment_summary lib ?pt = Inr e" by blast
      from segment_summary_Inr [OF f] segment_summary_Inr [OF e] f e False ft assms ap apv
      show ?thesis
        by (simp add: generate_summary_stats_def bind_result_def Let_def
              department_stats_lookup [abs_def])
    qed
  qed
qed

lemma generate_summary_stats_returns:
  assumes "df \<noteq> []"
    and "\<forall>r \<in> set df. Productivity_Percentage r \<noteq> NaN \<and> Actual_Hours r \<noteq> NaN"
  shows "\<exists>u. generate_summary_stats lib df = Inr u"
proof -
  let ?ft = "where_Employment_Type ''Full-Time'' df"
  let ?pt = "where_Employment_Type ''Part-Time'' df"
  obtain r rs where df: "df = r # rs" using assms(1) by (cases df) auto
  with assms(2) have "\<not> list_all (\<lambda>x. x = NaN) (map Productivity_Percentage df)" by simp
  then have ap: "round_scalar (mean lib (map Productivity_Percentage df)) =
      Inr (round2 (series_mean lib (map Productivity_Percentage df)))"
    by (simp add: round_scalar_def mean_def)
  have "\<forall>r \<in> set ?ft. Productivity_Percentage r \<noteq> NaN \<and> Actual_Hours r \<noteq> NaN"
    using assms(2) by (simp add: where_Employment_Type_def)
  then have ft: "?ft \<noteq> [] \<Longrightarrow> \<exists>e. segment_summary lib ?ft = Inr e"
    by (rule segment_summary_returns [rotated])
  have "\<forall>r \<in> set ?pt. Productivity_Percentage r \<noteq> NaN \<and> Actual_Hours r \<noteq> NaN"
    using assms(2) by (simp add: where_Employment_Type_def)
  then have pt: "?pt \<noteq> [] \<Longrightarrow> \<exists>e. segment_summary lib ?pt = Inr e"
    by (rule segment_summary_returns [rotated])
  show ?thesis
    using ft pt
    by (cases "?ft = []"; cases "?pt = []")
       (auto simp: generate_summary_stats_def ap bind_result_def Let_def)
qed

lemma filter_two_values:
  "\<forall>r \<in> set df. f r = a \<or> f r = b \<Longrightarrow> a \<noteq> b \<Longrightarrow>
   length (filter (\<lambda>r. f r = a) df) + length (filter (\<lambda>r. f r = b) df) = length df"
  by (induction df) auto

lemma counts_add_up_aux:
  assumes "\<forall>r \<in> set df. Productivity_Status r \<in> {''Productive'', ''Not Productive''}"
    and "generate_summary_stats lib df = Inr s"
  shows "productive_count s + not_productive_count s = total_employees s"
proof -
  have "length (filter (\<lambda>r. Productivity_Status r = ''Productive'') df) +
        length (filter (\<lambda>r. Productivity_Status r = ''Not Productive'') df) = length df"
    using assms(1) by (intro filter_two_values) auto
  then show ?thesis
    by (simp add: generate_summary_stats_closed [OF assms(2)] where_Productivity_Status_def)
qed

section \<open>The claims\<close>

subsection \<open>C1: unrecognised employment types\<close>

text \<open>
  C1 states that a record whose employment type is neither Full-Time nor Part-Time is
  rejected with a validation failure and that the computation does not run on it.
  The calculator has no such check. On a frame with the single row of a
  \<^verbatim>\<open>Contractor\<close> it runs to the end and returns the enriched row, with the
  part-time standard hours.
\<close>

theorem unknown_type_gets_default_counterexample:
  "''Contractor'' \<notin> {''Full-Time'', ''Part-Time''} \<and>
   calculate_productivity
     [\<lparr>Employee_ID = ''EMP0003'', Name = ''Employee 3'', Department = ''IT'',
       Employment_Type = ''Contractor'', Actual_Hours = Finite 95, Leave_Days = 0\<rparr>] =
     [\<lparr>Employee_ID = ''EMP0003'', Name = ''Employee 3'', Department = ''IT'',
       Employment_Type = ''Contractor'', Actual_Hours = Finite 95, Leave_Days = 0,
       Standard_Hours = 100, Leave_Hours_Deduction = 0, Expected_Hours = 100,
       Productivity_Percentage = Finite 95, Productivity_Status = ''Productive''\<rparr>]"
  using enrich_sample_contractor
  by (simp add: calculate_productivity_map sample_contractor_def)

text \<open>
  C1, as the code has it: the calculator returns one enriched row for every input row,
  whatever its employment type. The standard hours are 200 when the employment type is
  \<^verbatim>\<open>Full-Time\<close> and 100 for every other value, so a type outside Full-Time and
  Part-Time gets 100 and nothing is raised.
\<close>

theorem standard_hours_default:
  "length (calculate_productivity df) = length df \<and>
   (\<forall>i < length df.
      Standard_Hours (calculate_productivity df ! i) =
        (if Employment_Type (df ! i) = ''Full-Time'' then 200 else 100) \<and>
      (Employment_Type (df ! i) \<notin> {''Full-Time'', ''Part-Time''} \<longrightarrow>
         Standard_Hours (calculate_productivity df ! i) = 100))"
  by (simp add: calculate_productivity_map enrich_def standard_hours_of_def int64_of_def
        FULLTIME_STANDARD_HOURS_def PARTTIME_STANDARD_HOURS_def)

text \<open>
  C1, the amended statement at the row of a contractor.
\<close>

theorem standard_hours_default_witness:
  "0 < length [sample_contractor] \<and>
   Employment_Type ([sample_contractor] ! 0) \<notin> {''Full-Time'', ''Part-Time''} \<and>
   length (calculate_productivity [sample_contractor]) = 1 \<and>
   Standard_Hours (calculate_productivity [sample_contractor] ! 0) = 100"
  using standard_hours_default [of "[sample_contractor]"]
  by (simp add: sample_contractor_def)

subsection \<open>C2: the floor of the expected hours\<close>

text \<open>
  C2 states that the expected hours are the maximum of 1 and the standard hours minus
  eight hours for each leave day, and 1 whenever that difference is not positive. The
  leave days are a 64-bit integer column and the product wraps around: with
  \<open>2 ^ 61\<close> leave days the deduction is 0 and the expected hours of a part-time
  row are 100, although 100 minus eight times the leave days is far below zero.
\<close>

theorem leave_days_overflow_counterexample:
  "(100::int) - 2 ^ 61 * 8 \<le> 0 \<and>
   map Expected_Hours
     (calculate_productivity
        [\<lparr>Employee_ID = ''EMP0008'', Name = ''Employee 8'', Department = ''HR'',
          Employment_Type = ''Part-Time'', Actual_Hours = Finite 50,
          Leave_Days = 2 ^ 61\<rparr>]) = [100]"
  by (simp add: calculate_productivity_map enrich_def expected_hours_of_def Let_def
        standard_hours_of_def int64_of_def PARTTIME_STANDARD_HOURS_def HOURS_PER_LEAVE_DAY_def)

text \<open>
  C2, as the code has it: the expected hours of every output row are the standard hours
  minus the leave days times 8, computed in the 64-bit signed arithmetic of the column,
  and 1 when that value is below 1, so they are never below 1. For leave days from 0
  up to \<open>2 ^ 60\<close>, where nothing wraps, they are the maximum of 1 and the standard
  hours minus eight hours for each leave day, and exactly 1 when that difference is
  not positive.
\<close>

theorem expected_hours_floor:
  "\<forall>r \<in> set (calculate_productivity df).
     Expected_Hours r =
       (if sint (Standard_Hours r - Leave_Days r * 8) < 1 then 1
        else Standard_Hours r - Leave_Days r * 8) \<and>
     1 \<le> sint (Expected_Hours r) \<and>
     (0 \<le> sint (Leave_Days r) \<and> sint (Leave_Days r) < 2 ^ 60 \<longrightarrow>
        sint (Expected_Hours r) =
          max 1 (sint (Standard_Hours r) - sint (Leave_Days r) * 8) \<and>
        (sint (Standard_Hours r) - sint (Leave_Days r) * 8 \<le> 0 \<longrightarrow> Expected_Hours r = 1))"
proof
  fix r assume "r \<in> set (calculate_productivity df)"
  then obtain e where r: "r = enrich e" by (auto simp: calculate_productivity_map)
  have sh: "Standard_Hours r = 200 \<or> Standard_Hours r = 100"
    by (simp add: r enrich_def standard_hours_of_def int64_of_def
          FULLTIME_STANDARD_HOURS_def PARTTIME_STANDARD_HOURS_def)
  have eh: "Expected_Hours r =
       (if sint (Standard_Hours r - Leave_Days r * 8) < 1 then 1
        else Standard_Hours r - Leave_Days r * 8)"
    by (simp add: r enrich_def expected_hours_of_def Let_def int64_of_def
          HOURS_PER_LEAVE_DAY_def)
  have ge: "1 \<le> sint (Expected_Hours r)"
    using expected_hours_of_ge_1 [of e] by (simp add: r enrich_def)
  have rng: "sint (Expected_Hours r) =
          max 1 (sint (Standard_Hours r) - sint (Leave_Days r) * 8) \<and>
        (sint (Standard_Hours r) - sint (Leave_Days r) * 8 \<le> 0 \<longrightarrow> Expected_Hours r = 1)"
    if "0 \<le> sint (Leave_Days r)" "sint (Leave_Days r) < 2 ^ 60"
  proof -
    have "sint (Standard_Hours r - Leave_Days r * 8) =
        sint (Standard_Hours r) - sint (Leave_Days r) * 8"
      using sh that by (intro sint_difference) auto
    then show ?thesis by (auto simp: eh)
  qed
  from eh ge rng show
    "Expected_Hours r =
       (if sint (Standard_Hours r - Leave_Days r * 8) < 1 then 1
        else Standard_Hours r - Leave_Days r * 8) \<and>
     1 \<le> sint (Expected_Hours r) \<and>
     (0 \<le> sint (Leave_Days r) \<and> sint (Leave_Days r) < 2 ^ 60 \<longrightarrow>
        sint (Expected_Hours r) =
          max 1 (sint (Standard_Hours r) - sint (Leave_Days r) * 8) \<and>
        (sint (Standard_Hours r) - sint (Leave_Days r) * 8 \<le> 0 \<longrightarrow> Expected_Hours r = 1))"
    by blast
qed

text \<open>
  C2 at a part-time row with 13 leave days: 100 - 104 is negative, the result is 1.
\<close>

theorem expected_hours_floor_witness:
  "hd (calculate_productivity [sample_long_leave]) \<in>
     set (calculate_productivity [sample_long_leave]) \<and>
   sint (Leave_Days (hd (calculate_productivity [sample_long_leave]))) = 13 \<and>
   sint (Standard_Hours (hd (calculate_productivity [sample_long_leave]))) -
     sint (Leave_Days (hd (calculate_productivity [sample_long_leave]))) * 8 = - 4 \<and>
   Expected_Hours (hd (calculate_productivity [sample_long_leave])) = 1"
  using expected_hours_floor [of "[sample_long_leave]"]
  by (simp add: calculate_productivity_map enrich_sample_long_leave)

subsection \<open>C3: the classification\<close>

text \<open>
  C3: an output row is \<^verbatim>\<open>Productive\<close> exactly when its productivity percentage is
  at least 90 and \<^verbatim>\<open>Not Productive\<close> in every other case, which for a number
  means below 90. A percentage of 90.00 is productive, one of 89.99 is not.
\<close>

theorem status_iff_threshold:
  "\<forall>r \<in> set (calculate_productivity df).
     (Productivity_Status r = ''Productive'' \<longleftrightarrow> at_least 90 (Productivity_Percentage r)) \<and>
     (Productivity_Status r = ''Not Productive'' \<longleftrightarrow>
        \<not> at_least 90 (Productivity_Percentage r)) \<and>
     (\<forall>x. Productivity_Percentage r = Finite x \<longrightarrow>
        (Productivity_Status r = ''Productive'' \<longleftrightarrow> 90 \<le> x) \<and>
        (Productivity_Status r = ''Not Productive'' \<longleftrightarrow> x < 90)) \<and>
     (Productivity_Percentage r = Finite 90 \<longrightarrow> Productivity_Status r = ''Productive'') \<and>
     (Productivity_Percentage r = Finite (8999 / 100) \<longrightarrow>
        Productivity_Status r = ''Not Productive'')"
  by (auto simp: calculate_productivity_map enrich_def status_of_def
        PRODUCTIVITY_THRESHOLD_def)

text \<open>
  C3 at 180 of 200 hours (90.00, productive) and at 179.98 of 200 hours (the float
  nearest to 89.99, not productive).
\<close>

theorem status_iff_threshold_witness:
  "hd (calculate_productivity [sample_fulltime]) \<in>
     set (calculate_productivity [sample_fulltime]) \<and>
   Productivity_Percentage (hd (calculate_productivity [sample_fulltime])) = Finite 90 \<and>
   Productivity_Status (hd (calculate_productivity [sample_fulltime])) = ''Productive'' \<and>
   hd (calculate_productivity [sample_not_productive]) \<in>
     set (calculate_productivity [sample_not_productive]) \<and>
   Productivity_Percentage (hd (calculate_productivity [sample_not_productive])) =
     Finite (6332483288547983 / 70368744177664) \<and>
   \<not> at_least 90 (Finite (6332483288547983 / 70368744177664)) \<and>
   Productivity_Status (hd (calculate_productivity [sample_not_productive])) =
     ''Not Productive''"
  using status_iff_threshold [of "[sample_fulltime]"]
    status_iff_threshold [of "[sample_not_productive]"]
  by (simp add: calculate_productivity_map enrich_sample_fulltime
        enrich_sample_not_productive)

subsection \<open>C4: one output row for each input row\<close>

text \<open>
  C4: the result has as many rows as the input, in the same order. The row at a
  position is what the calculator returns for that input row alone, the result for a
  frame made of two parts is the result for the first followed by the result for the
  second, and the identifiers appear in the order of the input.
\<close>

theorem row_wise_map:
  "length (calculate_productivity df) = length df \<and>
   (\<forall>i < length df. calculate_productivity df ! i = hd (calculate_productivity [df ! i])) \<and>
   calculate_productivity (xs @ ys) = calculate_productivity xs @ calculate_productivity ys \<and>
   map Employee_ID (calculate_productivity df) = map Employee_ID df"
  by (simp add: calculate_productivity_map enrich_def)

text \<open>
  C4 on a frame of two rows.
\<close>

theorem row_wise_map_witness:
  "length (calculate_productivity [sample_fulltime, sample_parttime]) = 2 \<and>
   calculate_productivity [sample_fulltime, sample_parttime] ! 1 =
     hd (calculate_productivity [sample_parttime]) \<and>
   map Employee_ID (calculate_productivity [sample_fulltime, sample_parttime]) =
     [''EMP0001'', ''EMP0002'']"
  using row_wise_map [of "[sample_fulltime, sample_parttime]" "[]" "[]"]
  by (simp add: sample_fulltime_def sample_parttime_def)

subsection \<open>C5: the empty frame\<close>

text \<open>
  C5 states that the summary of an empty frame has zero counts and an average that is
  handled, with no exception. The calculator does return the empty frame. The
  aggregator then takes the mean of the empty percentage column, which is the plain
  float \<^verbatim>\<open>nan\<close>, and calls \<^verbatim>\<open>.round(2)\<close> on it: the call raises and no
  summary is returned. The two segment summaries are guarded by a length test; the
  overall average is not.
\<close>

theorem empty_input_summary_raises:
  "calculate_productivity [] = [] \<and>
   generate_summary_stats lib (calculate_productivity []) = Inl AttributeError"
  by (simp add: calculate_productivity_map generate_summary_stats_empty)

subsection \<open>C6: the two counts add up to the total\<close>

text \<open>
  C6: in every summary the aggregator returns, the productive count and the not
  productive count add up to the total. This holds for the summary of any frame the
  calculator produced, and more generally for any enriched frame whose status column
  holds only the two status values. The aggregator returns a summary for every
  non-empty frame without missing values, and so for the result of the calculator on
  every non-empty frame whose hours are not missing.
\<close>

theorem counts_add_up:
  "(generate_summary_stats lib (calculate_productivity raw) = Inr s \<longrightarrow>
      productive_count s + not_productive_count s = total_employees s) \<and>
   ((\<forall>r \<in> set df. Productivity_Status r \<in> {''Productive'', ''Not Productive''}) \<and>
    generate_summary_stats lib df = Inr t \<longrightarrow>
      productive_count t + not_productive_count t = total_employees t) \<and>
   (df \<noteq> [] \<and>
    (\<forall>r \<in> set df. Productivity_Percentage r \<noteq> NaN \<and> Actual_Hours r \<noteq> NaN) \<longrightarrow>
      (\<exists>u. generate_summary_stats lib df = Inr u)) \<and>
   (raw \<noteq> [] \<and> (\<forall>r \<in> set raw. Actual_Hours r \<noteq> NaN) \<longrightarrow>
      (\<exists>u. generate_summary_stats lib (calculate_productivity raw) = Inr u))"
proof -
  have "\<exists>u. generate_summary_stats lib (calculate_productivity raw) = Inr u"
    if "raw \<noteq> []" "\<forall>r \<in> set raw. Actual_Hours r \<noteq> NaN"
    using that
    by (intro generate_summary_stats_returns)
       (auto simp: calculate_productivity_map enrich_not_NaN)
  then show ?thesis
    using counts_add_up_aux [OF calculate_productivity_status, of lib raw s]
      counts_add_up_aux [of df lib t] generate_summary_stats_returns [of df lib]
    by blast
qed

text \<open>
  C6 on the frame computed from a full-time row at 90.00 and a part-time row at 59.52:
  one productive, one not productive, two in total.
\<close>

theorem counts_add_up_witness:
  "[sample_fulltime, sample_parttime] \<noteq> [] \<and>
   Actual_Hours sample_fulltime \<noteq> NaN \<and> Actual_Hours sample_parttime \<noteq> NaN \<and>
   (\<exists>s. generate_summary_stats means_left
           (calculate_productivity [sample_fulltime, sample_parttime]) = Inr s \<and>
        total_employees s = 2 \<and> productive_count s = 1 \<and> not_productive_count s = 1 \<and>
        productive_count s + not_productive_count s = total_employees s)"
proof -
  let ?raw = "[sample_fulltime, sample_parttime]"
  let ?df = "calculate_productivity ?raw"
  have hours: "Actual_Hours sample_fulltime \<noteq> NaN" "Actual_Hours sample_parttime \<noteq> NaN"
    by (simp_all add: sample_fulltime_def sample_parttime_def)
  have "\<forall>r \<in> set ?df. Productivity_Percentage r \<noteq> NaN \<and> Actual_Hours r \<noteq> NaN"
    using hours by (simp add: calculate_productivity_map enrich_not_NaN)
  then obtain s where s: "generate_summary_stats means_left ?df = Inr s"
    using generate_summary_stats_returns [of ?df means_left]
    by (auto simp: calculate_productivity_map)
  have sum: "productive_count s + not_productive_count s = total_employees s"
    using counts_add_up [of means_left ?raw s ?df s] s by blast
  have "total_employees s = 2 \<and> productive_count s = 1"
    unfolding generate_summary_stats_closed [OF s]
    by (simp add: calculate_productivity_map enrich_sample_fulltime enrich_sample_parttime
          where_Productivity_Status_def)
  with s sum hours show ?thesis by auto
qed

subsection \<open>C7: segment and department summaries\<close>

text \<open>
  C7: in every summary the aggregator returns, \<^verbatim>\<open>fulltime_stats\<close> is the empty
  dictionary exactly when the frame has no Full-Time row, and likewise
  \<^verbatim>\<open>parttime_stats\<close> for Part-Time. For a non-empty segment the entry holds the
  count, the two status counts, the rounded mean of the percentages and the rounded
  mean of the hours of the rows of that segment, and it is the entry that the
  aggregator computes when it is given the rows of the segment alone.
  \<^verbatim>\<open>department_stats\<close> has a key for every department that occurs in the frame,
  with the rounded mean of the percentages and the number of rows of that department.
\<close>

theorem segment_stats_presence:
  assumes "generate_summary_stats lib df = Inr s"
  shows
   "(fulltime_stats s = None \<longleftrightarrow> where_Employment_Type ''Full-Time'' df = []) \<and>
    (parttime_stats s = None \<longleftrightarrow> where_Employment_Type ''Part-Time'' df = []) \<and>
    (\<forall>seg. seg = where_Employment_Type ''Full-Time'' df \<and> seg \<noteq> [] \<longrightarrow>
       fulltime_stats s =
         Some \<lparr>count = length seg,
               productive = length (where_Productivity_Status ''Productive'' seg),
               not_productive = length (where_Productivity_Status ''Not Productive'' seg),
               segment_average_productivity =
                 round2 (series_mean lib (map Productivity_Percentage seg)),
               average_hours = round2 (series_mean lib (map Actual_Hours seg))\<rparr>) \<and>
    (\<forall>seg. seg = where_Employment_Type ''Part-Time'' df \<and> seg \<noteq> [] \<longrightarrow>
       parttime_stats s =
         Some \<lparr>count = length seg,
               productive = length (where_Productivity_Status ''Productive'' seg),
               not_productive = length (where_Productivity_Status ''Not Productive'' seg),
               segment_average_productivity =
                 round2 (series_mean lib (map Productivity_Percentage seg)),
               average_hours = round2 (series_mean lib (map Actual_Hours seg))\<rparr>) \<and>
    (\<forall>t. generate_summary_stats lib (where_Employment_Type ''Full-Time'' df) = Inr t \<longrightarrow>
       fulltime_stats t = fulltime_stats s) \<and>
    (\<forall>t. generate_summary_stats lib (where_Employment_Type ''Part-Time'' df) = Inr t \<longrightarrow>
       parttime_stats t = parttime_stats s) \<and>
    dom (department_stats s) = set (map Department df) \<and>
    (\<forall>d \<in> set (map Department df).
       department_stats s d =
         Some \<lparr>mean_Productivity_Percentage =
                 round2 (group_mean lib
                   (map Productivity_Percentage (filter (\<lambda>r. Department r = d) df))),
               count_Employee_ID = length (filter (\<lambda>r. Department r = d) df)\<rparr>)"
proof -
  note s = generate_summary_stats_closed [OF assms]
  have ft: "where_Employment_Type ''Full-Time'' (where_Employment_Type ''Full-Time'' df) =
      where_Employment_Type ''Full-Time'' df"
    by (simp add: where_Employment_Type_def)
  have pt: "where_Employment_Type ''Part-Time'' (where_Employment_Type ''Part-Time'' df) =
      where_Employment_Type ''Part-Time'' df"
    by (simp add: where_Employment_Type_def)
  have c1: "fulltime_stats s = None \<longleftrightarrow> where_Employment_Type ''Full-Time'' df = []"
    by (subst s) simp
  have c2: "parttime_stats s = None \<longleftrightarrow> where_Employment_Type ''Part-Time'' df = []"
    by (subst s) simp
  have c3: "\<forall>seg. seg = where_Employment_Type ''Full-Time'' df \<and> seg \<noteq> [] \<longrightarrow>
       fulltime_stats s =
         Some \<lparr>count = length seg,
               productive = length (where_Productivity_Status ''Productive'' seg),
               not_productive = length (where_Productivity_Status ''Not Productive'' seg),
               segment_average_productivity =
                 round2 (series_mean lib (map Productivity_Percentage seg)),
               average_hours = round2 (series_mean lib (map Actual_Hours seg))\<rparr>"
    by (subst s) simp
  have c4: "\<forall>seg. seg = where_Employment_Type ''Part-Time'' df \<and> seg \<noteq> [] \<longrightarrow>
       parttime_stats s =
         Some \<lparr>count = length seg,
               productive = length (where_Productivity_Status ''Productive'' seg),
               not_productive = length (where_Productivity_Status ''Not Productive'' seg),
               segment_average_productivity =
                 round2 (series_mean lib (map Productivity_Percentage seg)),
               average_hours = round2 (series_mean lib (map Actual_Hours seg))\<rparr>"
    by (subst s) simp
  have c5: "\<forall>t. generate_summary_stats lib (where_Employment_Type ''Full-Time'' df) = Inr t \<longrightarrow>
       fulltime_stats t = fulltime_stats s"
  proof (intro allI impI)
    fix t
    assume t: "generate_summary_stats lib (where_Employment_Type ''Full-Time'' df) = Inr t"
    then have ne: "where_Employment_Type ''Full-Time'' df \<noteq> []"
      by (rule generate_summary_stats_Inr)
    show "fulltime_stats t = fulltime_stats s"
      by (subst generate_summary_stats_closed [OF t], subst s) (simp add: ne ft)
  qed
  have c6: "\<forall>t. generate_summary_stats lib (where_Employment_Type ''Part-Time'' df) = Inr t \<longrightarrow>
       parttime_stats t = parttime_stats s"
  proof (intro allI impI)
    fix t
    assume t: "generate_summary_stats lib (where_Employment_Type ''Part-Time'' df) = Inr t"
    then have ne: "where_Employment_Type ''Part-Time'' df \<noteq> []"
      by (rule generate_summary_stats_Inr)
    show "parttime_stats t = parttime_stats s"
      by (subst generate_summary_stats_closed [OF t], subst s) (simp add: ne pt)
  qed
  have c7: "dom (department_stats s) = set (map Department df)"
    by (subst s) (auto simp: dom_def split: if_splits)
  have c8: "\<forall>d \<in> set (map Department df).
       department_stats s d =
         Some \<lparr>mean_Productivity_Percentage =
                 round2 (group_mean lib
                   (map Productivity_Percentage (filter (\<lambda>r. Department r = d) df))),
               count_Employee_ID = length (filter (\<lambda>r. Department r = d) df)\<rparr>"
    by (subst s) (auto simp: department_agg_def)
  from c1 c2 c3 c4 c5 c6 c7 c8 show ?thesis by blast
qed

text \<open>
  C7 on a frame of two full-time rows from two departments, at 180 and at 170.58
  hours: the full-time entry is present with the averages 87.65 and 175.29, the
  part-time entry is empty, and both departments are keys.
\<close>

theorem segment_stats_presence_witness:
  "\<exists>s. generate_summary_stats means_left
          (calculate_productivity [sample_fulltime, sample_second_fulltime]) = Inr s \<and>
       fulltime_stats s =
         Some \<lparr>count = 2, productive = 1, not_productive = 1,
               segment_average_productivity = Finite (3083910213586125 / 35184372088832),
               average_hours = Finite (6167468583451361 / 35184372088832)\<rparr> \<and>
       parttime_stats s = None \<and>
       dom (department_stats s) = {''Engineering'', ''Operations''}"
proof -
  define df where "df = calculate_productivity [sample_fulltime, sample_second_fulltime]"
  have df: "df = [enrich sample_fulltime, enrich sample_second_fulltime]"
    by (simp add: df_def calculate_productivity_map)
  note rows = df enrich_sample_fulltime enrich_sample_second_fulltime
  have "\<forall>r \<in> set df. Productivity_Percentage r \<noteq> NaN \<and> Actual_Hours r \<noteq> NaN"
    by (simp add: rows)
  then obtain s where s: "generate_summary_stats means_left df = Inr s"
    using generate_summary_stats_returns [of df means_left] by (auto simp: df)
  have ne: "df \<noteq> []" by (simp add: df)
  have ft: "where_Employment_Type ''Full-Time'' df = df"
    and pt: "where_Employment_Type ''Part-Time'' df = []"
    by (simp_all add: rows where_Employment_Type_def)
  have vals: "length df = 2"
    "length (where_Productivity_Status ''Productive'' df) = 1"
    "length (where_Productivity_Status ''Not Productive'' df) = 1"
    "round2 (series_mean means_left (map Productivity_Percentage df)) =
       Finite (3083910213586125 / 35184372088832)"
    "round2 (series_mean means_left (map Actual_Hours df)) =
       Finite (6167468583451361 / 35184372088832)"
    "set (map Department df) = {''Engineering'', ''Operations''}"
    by (simp_all add: rows where_Productivity_Status_def means_left_def sample_means)
  note T = segment_stats_presence [OF s]
  from T have "parttime_stats s = None" by (simp add: pt)
  moreover from T ne have "fulltime_stats s =
         Some \<lparr>count = 2, productive = 1, not_productive = 1,
               segment_average_productivity = Finite (3083910213586125 / 35184372088832),
               average_hours = Finite (6167468583451361 / 35184372088832)\<rparr>"
    by (simp add: ft vals)
  moreover from T have "dom (department_stats s) = set (map Department df)"
    by blast
  then have "dom (department_stats s) = {''Engineering'', ''Operations''}"
    by (simp only: vals)
  ultimately show ?thesis using s unfolding df_def by blast
qed

subsection \<open>C8: the ratio uses the unrounded hours\<close>

text \<open>
  C8: the percentage of an output row is the rounded value of the input hours, as they
  were before rounding, divided by the expected hours, times 100; the hours column of
  the output holds the rounded input hours. The rounded hours are not what the
  percentage was computed from: there is a row whose percentage differs from the one
  that its rounded hours would give.
\<close>

theorem ratio_from_unrounded_hours:
  "(\<forall>i < length df.
      Productivity_Percentage (calculate_productivity df ! i) =
        round2 (multiply
          (true_divide (Actual_Hours (df ! i))
             (float_of_int (sint (Expected_Hours (calculate_productivity df ! i)))))
          (float_of_int 100)) \<and>
      Actual_Hours (calculate_productivity df ! i) = round2 (Actual_Hours (df ! i))) \<and>
   (\<exists>r. Productivity_Percentage (hd (calculate_productivity [r])) \<noteq>
      round2 (multiply
        (true_divide (Actual_Hours (hd (calculate_productivity [r])))
           (float_of_int (sint (Expected_Hours (hd (calculate_productivity [r]))))))
        (float_of_int 100)))"
proof -
  have "Productivity_Percentage (hd (calculate_productivity [sample_near_threshold])) \<noteq>
      round2 (multiply
        (true_divide (Actual_Hours (hd (calculate_productivity [sample_near_threshold])))
           (float_of_int
              (sint (Expected_Hours (hd (calculate_productivity [sample_near_threshold]))))))
        (float_of_int 100))"
    by (simp add: calculate_productivity_map enrich_sample_near_threshold
          sample_near_threshold_ratio)
  then show ?thesis
    by (auto simp: calculate_productivity_map enrich_def raw_ratio_def)
qed

text \<open>
  C8 at 107.994 hours against 120 expected hours: the percentage is 90.00, the displayed
  hours are 107.99, and from the displayed hours the percentage would be 89.99.
\<close>

theorem ratio_from_unrounded_hours_witness:
  "0 < length [sample_near_threshold] \<and>
   Actual_Hours sample_near_threshold = Finite (3799701079361323 / 35184372088832) \<and>
   Expected_Hours (calculate_productivity [sample_near_threshold] ! 0) = 120 \<and>
   Productivity_Percentage (calculate_productivity [sample_near_threshold] ! 0) = Finite 90 \<and>
   Actual_Hours (calculate_productivity [sample_near_threshold] ! 0) =
     Finite (7599120683745935 / 70368744177664) \<and>
   round2 (multiply (true_divide (Finite (7599120683745935 / 70368744177664))
     (float_of_int 120)) (float_of_int 100)) = Finite (6332483288547983 / 70368744177664)"
  using ratio_from_unrounded_hours [of "[sample_near_threshold]"]
  by (simp (no_asm) add: calculate_productivity_map enrich_sample_near_threshold sample_hours
        sample_near_threshold_ratio)

subsection \<open>C9: the calls leave their argument as it was\<close>

text \<open>
  C9: a call of the calculator allocates one new frame, its result, and changes no
  object that existed before the call, the argument among them; it returns for every
  frame of input rows. A call of the aggregator leaves the whole store as it was and
  returns the summary of the frame it was given.
\<close>

theorem calls_leave_argument:
  "(calculate_productivity_call s a = Some (a', s') \<longrightarrow>
      a < length s \<and> a' = length s \<and> length s' = Suc (length s) \<and>
      (\<forall>b < length s. s' ! b = s ! b) \<and>
      (\<exists>df. s ! a = Frame df \<and> s' ! a' = Frame5 (calculate_productivity df))) \<and>
   (a < length s \<and> s ! a = Frame df0 \<longrightarrow>
      calculate_productivity_call s a =
        Some (length s, s @ [Frame5 (calculate_productivity df0)])) \<and>
   (generate_summary_stats_call lib s a = Some (res, s'') \<longrightarrow>
      s'' = s \<and> a < length s \<and>
      (\<exists>df. s ! a = Frame5 df \<and> res = generate_summary_stats lib df)) \<and>
   (a < length s \<and> s ! a = Frame5 df5 \<longrightarrow>
      generate_summary_stats_call lib s a = Some (generate_summary_stats lib df5, s))"
proof -
  have calc: "calculate_productivity_call s a =
      (case lookup s a of
         Some (Frame df) \<Rightarrow> Some (length s, s @ [Frame5 (calculate_productivity df)])
       | _ \<Rightarrow> None)"
    by (simp add: calculate_productivity_call_def calculate_productivity_def Let_def
          split: option.splits pyobj.splits)
  show ?thesis
    unfolding calc generate_summary_stats_call_def lookup_def
    by (auto simp: nth_append split: if_splits pyobj.splits)
qed

text \<open>
  C9 on a store that holds one frame of one row: the calculator appends the enriched
  frame, and the aggregator, called on that, changes nothing.
\<close>

theorem calls_leave_argument_witness:
  "(0::nat) < length [Frame [sample_fulltime]] \<and>
   calculate_productivity_call [Frame [sample_fulltime]] 0 =
     Some (1, [Frame [sample_fulltime], Frame5 (calculate_productivity [sample_fulltime])]) \<and>
   generate_summary_stats_call means_left
     [Frame [sample_fulltime], Frame5 (calculate_productivity [sample_fulltime])] 1 =
     Some (generate_summary_stats means_left (calculate_productivity [sample_fulltime]),
           [Frame [sample_fulltime], Frame5 (calculate_productivity [sample_fulltime])])"
proof -
  let ?s0 = "[Frame [sample_fulltime]]"
  let ?out = "calculate_productivity [sample_fulltime]"
  let ?s1 = "[Frame [sample_fulltime], Frame5 ?out]"
  have "calculate_productivity_call ?s0 0 = Some (length ?s0, ?s0 @ [Frame5 ?out])"
    using calls_leave_argument
      [where s = ?s0 and a = 0 and a' = 1 and s' = ?s1 and ?df0.0 = "[sample_fulltime]"
         and lib = means_left
         and res = "generate_summary_stats means_left ?out" and s'' = ?s1 and ?df5.0 = ?out]
    by simp
  moreover have "generate_summary_stats_call means_left ?s1 1 =
      Some (generate_summary_stats means_left ?out, ?s1)"
    using calls_leave_argument
      [where s = ?s1 and a = 1 and a' = 2 and s' = ?s1 and ?df0.0 = "[sample_fulltime]"
         and lib = means_left
         and res = "generate_summary_stats means_left ?out" and s'' = ?s1 and ?df5.0 = ?out]
    by simp
  ultimately show ?thesis by simp
qed

subsection \<open>C10: the classification reads the rounded percentage\<close>

text \<open>
  C10: the status of an output row is computed from the rounded percentage that the row
  stores. The unrounded ratio is the float that the division and the multiplication by
  100 return. A row whose unrounded ratio is at least 89.995 is
  \<^verbatim>\<open>Productive\<close>, also when that ratio is below 90.
\<close>

theorem classification_on_rounded:
  "\<forall>i < length df.
     Productivity_Status (calculate_productivity df ! i) =
       status_of (Productivity_Percentage (calculate_productivity df ! i)) \<and>
     Productivity_Percentage (calculate_productivity df ! i) =
       round2 (multiply
         (true_divide (Actual_Hours (df ! i))
            (float_of_int (sint (Expected_Hours (calculate_productivity df ! i)))))
         (float_of_int 100)) \<and>
     (at_least (89995 / 1000)
        (multiply
           (true_divide (Actual_Hours (df ! i))
              (float_of_int (sint (Expected_Hours (calculate_productivity df ! i)))))
           (float_of_int 100)) \<longrightarrow>
        Productivity_Status (calculate_productivity df ! i) = ''Productive'')"
proof (intro allI impI)
  fix i assume i: "i < length df"
  let ?r = "df ! i"
  have out: "calculate_productivity df ! i = enrich ?r"
    using i by (simp add: calculate_productivity_map)
  have "at_least (89995 / 1000) (raw_ratio ?r) \<Longrightarrow>
      status_of (round2 (raw_ratio ?r)) = ''Productive''"
    using round2_boundary [of "raw_ratio ?r"]
    by (simp add: status_of_def PRODUCTIVITY_THRESHOLD_def)
  then show "Productivity_Status (calculate_productivity df ! i) =
       status_of (Productivity_Percentage (calculate_productivity df ! i)) \<and>
     Productivity_Percentage (calculate_productivity df ! i) =
       round2 (multiply
         (true_divide (Actual_Hours (df ! i))
            (float_of_int (sint (Expected_Hours (calculate_productivity df ! i)))))
         (float_of_int 100)) \<and>
     (at_least (89995 / 1000)
        (multiply
           (true_divide (Actual_Hours (df ! i))
              (float_of_int (sint (Expected_Hours (calculate_productivity df ! i)))))
           (float_of_int 100)) \<longrightarrow>
        Productivity_Status (calculate_productivity df ! i) = ''Productive'')"
    unfolding out by (simp add: enrich_def raw_ratio_def)
qed

text \<open>
  C10 at 107.994 of 120 hours: the unrounded ratio is the float next above 89.995,
  below 90; the stored percentage is 90.00 and the row is productive.
\<close>

theorem classification_on_rounded_witness:
  "0 < length [sample_near_threshold] \<and>
   multiply
     (true_divide (Actual_Hours sample_near_threshold)
        (float_of_int (sint (Expected_Hours (calculate_productivity [sample_near_threshold] ! 0)))))
     (float_of_int 100) = Finite (791604391533609 / 8796093022208) \<and>
   at_least (89995 / 1000) (Finite (791604391533609 / 8796093022208)) \<and>
   \<not> at_least 90 (Finite (791604391533609 / 8796093022208)) \<and>
   Productivity_Percentage (calculate_productivity [sample_near_threshold] ! 0) = Finite 90 \<and>
   Productivity_Status (calculate_productivity [sample_near_threshold] ! 0) = ''Productive''"
  using classification_on_rounded [of "[sample_near_threshold]"]
  by (simp (no_asm) add: calculate_productivity_map enrich_sample_near_threshold sample_hours
        sample_near_threshold_ratio)

end
